theory Spec2Isabelle
  imports Complex_Main "HOL-Library.Sublist"
begin

section \<open>The address-processing pipeline of dc-bar-mapper\<close>

text \<open>
  A shallow embedding of \<^verbatim>\<open>src/backend/process_addresses.py\<close>. Console output
  (\<^verbatim>\<open>print\<close>) is not modelled. Text is a list of characters, one \<^typ>\<open>char\<close> per
  code point below 256.
\<close>

subsection \<open>Python values and exceptions\<close>

text \<open>
  Every exception the pipeline can meet derives from \<^verbatim>\<open>Exception\<close>; a function that may
  raise returns \<open>pyexn + 'a\<close>, with \<open>Inl\<close> for the raised exception.
\<close>

datatype pyexn = KeyError | TypeError | IndexError | AttributeError | ValueError | ApiError

text \<open>A Python \<^verbatim>\<open>float\<close>: a finite value, an infinity or not-a-number.\<close>

datatype pyfloat = Fin real | PosInf | NegInf | NaN

text \<open>
  The values a decoded JSON response body is made of (and the values of the cells of an
  address dictionary). A \<^verbatim>\<open>dict\<close> with string keys is an association list read
  with \<^const>\<open>map_of\<close>.
\<close>

datatype pyval =
    PNone
  | PBool bool
  | PInt int
  | PFloat pyfloat
  | PStr string
  | PList "pyval list"
  | PDict "(string \<times> pyval) list"

definition and_then :: "pyexn + 'a \<Rightarrow> ('a \<Rightarrow> pyexn + 'b) \<Rightarrow> pyexn + 'b" where
  "and_then m f = (case m of Inl e \<Rightarrow> Inl e | Inr x \<Rightarrow> f x)"

text \<open>\<^verbatim>\<open>d[k]\<close> with a string key.\<close>

fun py_getitem :: "pyval \<Rightarrow> string \<Rightarrow> pyexn + pyval" where
  "py_getitem (PDict kvs) k = (case map_of kvs k of None \<Rightarrow> Inl KeyError | Some v \<Rightarrow> Inr v)"
| "py_getitem PNone k = Inl TypeError"
| "py_getitem (PBool b) k = Inl TypeError"
| "py_getitem (PInt i) k = Inl TypeError"
| "py_getitem (PFloat x) k = Inl TypeError"
| "py_getitem (PStr s) k = Inl TypeError"
| "py_getitem (PList xs) k = Inl TypeError"

text \<open>\<^verbatim>\<open>x[0]\<close>.\<close>

fun py_index0 :: "pyval \<Rightarrow> pyexn + pyval" where
  "py_index0 (PList []) = Inl IndexError"
| "py_index0 (PList (x # xs)) = Inr x"
| "py_index0 (PStr []) = Inl IndexError"
| "py_index0 (PStr (c # cs)) = Inr (PStr [c])"
| "py_index0 (PDict kvs) = Inl KeyError"
| "py_index0 PNone = Inl TypeError"
| "py_index0 (PBool b) = Inl TypeError"
| "py_index0 (PInt i) = Inl TypeError"
| "py_index0 (PFloat x) = Inl TypeError"

text \<open>\<^verbatim>\<open>d.get(k, default)\<close>; only a \<^verbatim>\<open>dict\<close> has the method.\<close>

fun py_get :: "pyval \<Rightarrow> string \<Rightarrow> pyval \<Rightarrow> pyexn + pyval" where
  "py_get (PDict kvs) k dflt = Inr (case map_of kvs k of None \<Rightarrow> dflt | Some v \<Rightarrow> v)"
| "py_get PNone k dflt = Inl AttributeError"
| "py_get (PBool b) k dflt = Inl AttributeError"
| "py_get (PInt i) k dflt = Inl AttributeError"
| "py_get (PFloat x) k dflt = Inl AttributeError"
| "py_get (PStr s) k dflt = Inl AttributeError"
| "py_get (PList xs) k dflt = Inl AttributeError"

text \<open>Truth value of an object in a condition.\<close>

fun py_truthy :: "pyval \<Rightarrow> bool" where
  "py_truthy PNone = False"
| "py_truthy (PBool b) = b"
| "py_truthy (PInt i) = (i \<noteq> 0)"
| "py_truthy (PFloat (Fin r)) = (r \<noteq> 0)"
| "py_truthy (PFloat PosInf) = True"
| "py_truthy (PFloat NegInf) = True"
| "py_truthy (PFloat NaN) = True"
| "py_truthy (PStr s) = (s \<noteq> [])"
| "py_truthy (PList xs) = (xs \<noteq> [])"
| "py_truthy (PDict kvs) = (kvs \<noteq> [])"

text \<open>
  The operand of an order comparison with a \<^verbatim>\<open>float\<close> constant: numbers (and
  \<^verbatim>\<open>bool\<close>, a subclass of \<^verbatim>\<open>int\<close>) compare by value, anything else raises
  \<^verbatim>\<open>TypeError\<close>.
\<close>

fun py_number :: "pyval \<Rightarrow> pyexn + pyfloat" where
  "py_number (PFloat x) = Inr x"
| "py_number (PInt i) = Inr (Fin (of_int i))"
| "py_number (PBool b) = Inr (Fin (if b then 1 else 0))"
| "py_number PNone = Inl TypeError"
| "py_number (PStr s) = Inl TypeError"
| "py_number (PList xs) = Inl TypeError"
| "py_number (PDict kvs) = Inl TypeError"

text \<open>\<^verbatim>\<open>x <= y\<close> on floats; every comparison with not-a-number is false.\<close>

fun float_le :: "pyfloat \<Rightarrow> pyfloat \<Rightarrow> bool" where
  "float_le NaN y = False"
| "float_le x NaN = False"
| "float_le NegInf y = True"
| "float_le x PosInf = True"
| "float_le (Fin a) (Fin b) = (a \<le> b)"
| "float_le (Fin a) NegInf = False"
| "float_le PosInf (Fin b) = False"
| "float_le PosInf NegInf = False"

subsection \<open>String operations\<close>

definition py_isspace :: "char \<Rightarrow> bool" where
  "py_isspace c =
     (let n = (of_char c :: nat)
      in (9 \<le> n \<and> n \<le> 13) \<or> (28 \<le> n \<and> n \<le> 32) \<or> n = 133 \<or> n = 160)"

text \<open>\<^verbatim>\<open>s.strip()\<close>\<close>

definition py_strip :: "string \<Rightarrow> string" where
  "py_strip s = rev (dropWhile py_isspace (rev (dropWhile py_isspace s)))"

definition py_lower_char :: "char \<Rightarrow> char" where
  "py_lower_char c =
     (let n = (of_char c :: nat)
      in if (65 \<le> n \<and> n \<le> 90) \<or> (192 \<le> n \<and> n \<le> 222 \<and> n \<noteq> 215)
         then char_of (n + 32) else c)"

text \<open>\<^verbatim>\<open>s.lower()\<close>\<close>

definition py_lower :: "string \<Rightarrow> string" where
  "py_lower s = map py_lower_char s"

text \<open>\<^verbatim>\<open>s.startswith(p)\<close>\<close>

fun py_startswith :: "string \<Rightarrow> string \<Rightarrow> bool" where
  "py_startswith s [] = True"
| "py_startswith [] (p # ps) = False"
| "py_startswith (c # cs) (p # ps) = (c = p \<and> py_startswith cs ps)"

text \<open>\<^verbatim>\<open>sub in s\<close>\<close>

fun py_in :: "string \<Rightarrow> string \<Rightarrow> bool" where
  "py_in sub [] = (sub = [])"
| "py_in sub (c # cs) = (py_startswith (c # cs) sub \<or> py_in sub cs)"

text \<open>\<^verbatim>\<open>s.split(sep)\<close> for a separator of one character.\<close>

fun py_split :: "char \<Rightarrow> string \<Rightarrow> string list" where
  "py_split sep [] = [[]]"
| "py_split sep (c # cs) =
     (if c = sep then [] # py_split sep cs
      else (case py_split sep cs of [] \<Rightarrow> [[c]] | p # ps \<Rightarrow> (c # p) # ps))"

subsection \<open>Bounds validation\<close>

definition DC_LAT_MIN :: real where "DC_LAT_MIN = 38.5"
definition DC_LAT_MAX :: real where "DC_LAT_MAX = 39.5"
definition DC_LNG_MIN :: real where "DC_LNG_MIN = -77.5"
definition DC_LNG_MAX :: real where "DC_LNG_MAX = -76.5"

text \<open>
  The condition \<^verbatim>\<open>DC_LAT_MIN <= lat <= DC_LAT_MAX and DC_LNG_MIN <= lng <= DC_LNG_MAX\<close>,
  evaluated left to right with short-circuiting: an operand is only looked at when the
  comparisons before it were true.
\<close>

definition in_dc_box :: "pyval \<Rightarrow> pyval \<Rightarrow> pyexn + bool" where
  "in_dc_box lat lng =
     and_then (py_number lat) (\<lambda>x.
       if \<not> float_le (Fin DC_LAT_MIN) x then Inr False
       else if \<not> float_le x (Fin DC_LAT_MAX) then Inr False
       else and_then (py_number lng) (\<lambda>y.
         if \<not> float_le (Fin DC_LNG_MIN) y then Inr False
         else Inr (float_le y (Fin DC_LNG_MAX))))"

definition validate_dc_coordinates :: "pyval \<Rightarrow> pyval \<Rightarrow> string \<Rightarrow> pyexn + bool" where
  "validate_dc_coordinates lat lng address =
     and_then (in_dc_box lat lng) (\<lambda>inside.
       if \<not> inside then Inr False else Inr True)"

subsection \<open>The two resolvers\<close>

text \<open>
  The Google Maps client. The remote service is a state \<open>'w\<close> that every call may read and
  change, so that the same query may be answered differently at different times. Each
  call returns the decoded response body or raises.
\<close>

record 'w gmaps_client =
  places :: "string \<Rightarrow> 'w \<Rightarrow> (pyexn + pyval) \<times> 'w"
  place :: "pyval \<Rightarrow> 'w \<Rightarrow> (pyexn + pyval) \<times> 'w"
  geocode :: "string \<Rightarrow> 'w \<Rightarrow> (pyexn + pyval) \<times> 'w"

text \<open>
  The dictionary a resolver returns, with the keys \<^verbatim>\<open>name\<close>, \<^verbatim>\<open>address\<close>,
  \<^verbatim>\<open>lat\<close>, \<^verbatim>\<open>lng\<close>, \<^verbatim>\<open>visible\<close>; an entry of the dataset has the key
  \<^verbatim>\<open>id\<close> too (here \<open>rec_id\<close>).
\<close>

record geo_result =
  name :: pyval
  address :: pyval
  lat :: pyval
  lng :: pyval
  visible :: bool

record address_row = geo_result +
  rec_id :: int

text \<open>The query sent to either service: the city is appended unless already mentioned.\<close>

definition search_query :: "string \<Rightarrow> string" where
  "search_query raw_address =
     (if \<not> py_in ''washington'' (py_lower raw_address) \<and> \<not> py_in ''dc'' (py_lower raw_address)
      then raw_address @ '', Washington DC''
      else raw_address)"

text \<open>\<^verbatim>\<open>places_result['status'] == 'OK' and places_result.get('results')\<close>\<close>

definition places_found :: "pyval \<Rightarrow> pyexn + bool" where
  "places_found places_result =
     and_then (py_getitem places_result ''status'') (\<lambda>status.
       if status \<noteq> PStr ''OK'' then Inr False
       else and_then (py_get places_result ''results'' PNone) (\<lambda>results.
         Inr (py_truthy results)))"

text \<open>\<^verbatim>\<open>places_result['results'][0]['place_id']\<close>\<close>

definition first_place_id :: "pyval \<Rightarrow> pyexn + pyval" where
  "first_place_id places_result =
     and_then (py_getitem places_result ''results'') (\<lambda>results.
       and_then (py_index0 results) (\<lambda>first.
         py_getitem first ''place_id''))"

text \<open>\<^verbatim>\<open>result['geometry']['location'][k]\<close>\<close>

definition location_of :: "pyval \<Rightarrow> string \<Rightarrow> pyexn + pyval" where
  "location_of result k =
     and_then (py_getitem result ''geometry'') (\<lambda>geometry.
       and_then (py_getitem geometry ''location'') (\<lambda>location.
         py_getitem location k))"

text \<open>
  What \<open>find_place_by_name\<close> reads from the details response: nothing when its status is
  not \<^verbatim>\<open>OK\<close>, else latitude, longitude, name and formatted address.
\<close>

definition details_fields :: "pyval \<Rightarrow> pyexn + (pyval \<times> pyval \<times> pyval \<times> pyval) option" where
  "details_fields details =
     and_then (py_getitem details ''status'') (\<lambda>status.
       if status \<noteq> PStr ''OK'' then Inr None
       else and_then (py_getitem details ''result'') (\<lambda>result.
         and_then (location_of result ''lat'') (\<lambda>lt.
           and_then (location_of result ''lng'') (\<lambda>lg.
             and_then (py_get result ''name'' (PStr [])) (\<lambda>nm.
               and_then (py_get result ''formatted_address'' (PStr [])) (\<lambda>fa.
                 Inr (Some (lt, lg, nm, fa))))))))"

text \<open>
  The first part of \<open>find_place_by_name\<close>, up to the bounds check: the text search, then
  the details of its first result.
\<close>

definition find_place_details ::
  "'w gmaps_client \<Rightarrow> string \<Rightarrow> 'w \<Rightarrow> (pyexn + (pyval \<times> pyval \<times> pyval \<times> pyval) option) \<times> 'w" where
  "find_place_details gmaps raw_address w =
     (case places gmaps (search_query raw_address) w of
        (Inl e, w1) \<Rightarrow> (Inl e, w1)
      | (Inr places_result, w1) \<Rightarrow>
          (case places_found places_result of
             Inl e \<Rightarrow> (Inl e, w1)
           | Inr False \<Rightarrow> (Inr None, w1)
           | Inr True \<Rightarrow>
               (case first_place_id places_result of
                  Inl e \<Rightarrow> (Inl e, w1)
                | Inr place_id \<Rightarrow>
                    (case place gmaps place_id w1 of
                       (Inl e, w2) \<Rightarrow> (Inl e, w2)
                     | (Inr details, w2) \<Rightarrow> (details_fields details, w2)))))"

text \<open>Any exception is caught and becomes \<^verbatim>\<open>None\<close>.\<close>

definition find_place_by_name :: "'w gmaps_client \<Rightarrow> string \<Rightarrow> 'w \<Rightarrow> geo_result option \<times> 'w" where
  "find_place_by_name gmaps raw_address w =
     (case find_place_details gmaps raw_address w of
        (Inl e, w') \<Rightarrow> (None, w')
      | (Inr None, w') \<Rightarrow> (None, w')
      | (Inr (Some (lt, lg, nm, fa)), w') \<Rightarrow>
          (case validate_dc_coordinates lt lg raw_address of
             Inl e \<Rightarrow> (None, w')
           | Inr False \<Rightarrow> (None, w')
           | Inr True \<Rightarrow>
               (Some \<lparr>name = nm, address = fa, lat = lt, lng = lg, visible = True\<rparr>, w')))"

text \<open>
  What \<open>geocode_address_fallback\<close> reads from the first geocoding result: latitude,
  longitude and formatted address.
\<close>

definition geocode_fields :: "pyval \<Rightarrow> pyexn + (pyval \<times> pyval \<times> pyval) option" where
  "geocode_fields results =
     (if \<not> py_truthy results then Inr None
      else and_then (py_index0 results) (\<lambda>result.
        and_then (location_of result ''lat'') (\<lambda>lt.
          and_then (location_of result ''lng'') (\<lambda>lg.
            and_then (py_getitem result ''formatted_address'') (\<lambda>fa.
              Inr (Some (lt, lg, fa)))))))"

definition geocode_lookup ::
  "'w gmaps_client \<Rightarrow> string \<Rightarrow> 'w \<Rightarrow> (pyexn + (pyval \<times> pyval \<times> pyval) option) \<times> 'w" where
  "geocode_lookup gmaps raw_address w =
     (case geocode gmaps (search_query raw_address) w of
        (Inl e, w1) \<Rightarrow> (Inl e, w1)
      | (Inr results, w1) \<Rightarrow> (geocode_fields results, w1))"

text \<open>\<^verbatim>\<open>raw_address.split(',')[0].strip()\<close>\<close>

definition name_from_input :: "string \<Rightarrow> pyexn + string" where
  "name_from_input raw_address =
     (case py_split CHR '','' raw_address of
        [] \<Rightarrow> Inl IndexError
      | first # others \<Rightarrow> Inr (py_strip first))"

text \<open>
  The bounds check is called for its warning only: its result is dropped, but an
  exception it raises is caught like any other.
\<close>

definition geocode_address_fallback ::
  "'w gmaps_client \<Rightarrow> string \<Rightarrow> 'w \<Rightarrow> geo_result option \<times> 'w" where
  "geocode_address_fallback gmaps raw_address w =
     (case geocode_lookup gmaps raw_address w of
        (Inl e, w') \<Rightarrow> (None, w')
      | (Inr None, w') \<Rightarrow> (None, w')
      | (Inr (Some (lt, lg, fa)), w') \<Rightarrow>
          (case name_from_input raw_address of
             Inl e \<Rightarrow> (None, w')
           | Inr nm \<Rightarrow>
               (case validate_dc_coordinates lt lg raw_address of
                  Inl e \<Rightarrow> (None, w')
                | Inr inside \<Rightarrow>
                    (Some \<lparr>name = PStr nm, address = fa, lat = lt, lng = lg, visible = True\<rparr>,
                     w'))))"

definition geocode_address :: "'w gmaps_client \<Rightarrow> string \<Rightarrow> 'w \<Rightarrow> geo_result option \<times> 'w" where
  "geocode_address gmaps raw_address w =
     (case find_place_by_name gmaps raw_address w of
        (Some result, w1) \<Rightarrow> (Some result, w1)
      | (None, w1) \<Rightarrow> geocode_address_fallback gmaps raw_address w1)"

subsection \<open>The existing dataset\<close>

text \<open>
  The conversions of the Python runtime that are not modelled, taken as parameters:
  \<^verbatim>\<open>int(s)\<close> and \<^verbatim>\<open>float(s)\<close> on a string (\<open>None\<close> when they raise
  \<^verbatim>\<open>ValueError\<close>) and the text the CSV writer puts in a cell for a value.
\<close>

record pyrt =
  int_of_str :: "string \<Rightarrow> int option"
  float_of_str :: "string \<Rightarrow> pyfloat option"
  cell_text :: "pyval \<Rightarrow> string"

text \<open>
  A row as \<^verbatim>\<open>csv.DictReader\<close> yields it: a dictionary from column names to cells, where
  a cell missing from a short row is \<^verbatim>\<open>None\<close>. The dataset file is the list of its rows;
  a read error in the middle of the file stops the loop as a row without an \<^verbatim>\<open>id\<close>
  column does.
\<close>

type_synonym csv_row = "(string \<times> string option) list"

definition row_cell :: "csv_row \<Rightarrow> string \<Rightarrow> pyexn + string option" where
  "row_cell row k = (case map_of row k of None \<Rightarrow> Inl KeyError | Some c \<Rightarrow> Inr c)"

definition py_int :: "pyrt \<Rightarrow> string option \<Rightarrow> pyexn + int" where
  "py_int rt c =
     (case c of
        None \<Rightarrow> Inl TypeError
      | Some s \<Rightarrow> (case int_of_str rt s of None \<Rightarrow> Inl ValueError | Some i \<Rightarrow> Inr i))"

definition py_float :: "pyrt \<Rightarrow> string option \<Rightarrow> pyexn + pyfloat" where
  "py_float rt c =
     (case c of
        None \<Rightarrow> Inl TypeError
      | Some s \<Rightarrow> (case float_of_str rt s of None \<Rightarrow> Inl ValueError | Some x \<Rightarrow> Inr x))"

definition cell_value :: "string option \<Rightarrow> pyval" where
  "cell_value c = (case c of None \<Rightarrow> PNone | Some s \<Rightarrow> PStr s)"

text \<open>\<^verbatim>\<open>row['visible'].lower() == 'true'\<close>\<close>

definition lower_is_true :: "string option \<Rightarrow> pyexn + bool" where
  "lower_is_true c =
     (case c of None \<Rightarrow> Inl AttributeError | Some s \<Rightarrow> Inr (py_lower s = ''true''))"

text \<open>The dictionary built from one row, its values converted in the order of the source.\<close>

definition parse_row :: "pyrt \<Rightarrow> csv_row \<Rightarrow> pyexn + address_row" where
  "parse_row rt row =
     and_then (row_cell row ''id'') (\<lambda>c_id. and_then (py_int rt c_id) (\<lambda>i.
     and_then (row_cell row ''name'') (\<lambda>c_name.
     and_then (row_cell row ''address'') (\<lambda>c_address.
     and_then (row_cell row ''lat'') (\<lambda>c_lat. and_then (py_float rt c_lat) (\<lambda>x.
     and_then (row_cell row ''lng'') (\<lambda>c_lng. and_then (py_float rt c_lng) (\<lambda>y.
     and_then (row_cell row ''visible'') (\<lambda>c_visible. and_then (lower_is_true c_visible) (\<lambda>v.
       Inr \<lparr>name = cell_value c_name, address = cell_value c_address,
            lat = PFloat x, lng = PFloat y, visible = v, rec_id = i\<rparr>))))))))))"

text \<open>
  The loop over the rows. An exception leaves it: the rows read so far and their maximal
  id are kept. (The second \<^verbatim>\<open>int(row['id'])\<close> of an iteration gives the value of the
  first.)
\<close>

fun read_rows :: "pyrt \<Rightarrow> csv_row list \<Rightarrow> address_row list \<times> int \<Rightarrow> address_row list \<times> int" where
  "read_rows rt [] (addresses, max_id) = (addresses, max_id)"
| "read_rows rt (row # rows) (addresses, max_id) =
     (case parse_row rt row of
        Inl e \<Rightarrow> (addresses, max_id)
      | Inr a \<Rightarrow> read_rows rt rows (addresses @ [a], max max_id (rec_id a)))"

definition read_existing_addresses :: "pyrt \<Rightarrow> csv_row list option \<Rightarrow> address_row list \<times> int" where
  "read_existing_addresses rt csv =
     (case csv of None \<Rightarrow> ([], 0) | Some rows \<Rightarrow> read_rows rt rows ([], 0))"

subsection \<open>Files\<close>

text \<open>
  The files of the script's directory: the input files by name (each a list of lines), the
  dataset \<^verbatim>\<open>addresses.csv\<close> and the failure list \<^verbatim>\<open>addresses_failed.txt\<close>;
  \<open>None\<close> is a file that does not exist. The input file is taken to be neither of the two
  output files. The dataset file is its rows below the header line
  \<^verbatim>\<open>id,name,address,lat,lng,visible\<close>, which \<open>write_addresses_csv\<close> always writes.
\<close>

record disk =
  text_files :: "string \<Rightarrow> string list option"
  csv_file :: "csv_row list option"
  failed_file :: "string option"

definition csv_row_of :: "pyrt \<Rightarrow> address_row \<Rightarrow> csv_row" where
  "csv_row_of rt a =
     [(''id'', Some (cell_text rt (PInt (rec_id a)))),
      (''name'', Some (cell_text rt (name a))),
      (''address'', Some (cell_text rt (address a))),
      (''lat'', Some (cell_text rt (lat a))),
      (''lng'', Some (cell_text rt (lng a))),
      (''visible'', Some (cell_text rt (PBool (visible a))))]"

definition write_addresses_csv :: "pyrt \<Rightarrow> address_row list \<Rightarrow> disk \<Rightarrow> disk" where
  "write_addresses_csv rt addresses d = d\<lparr>csv_file := Some (map (csv_row_of rt) addresses)\<rparr>"

subsection \<open>The run\<close>

text \<open>
  The process environment: the variable \<^verbatim>\<open>GOOGLE_MAPS_API_KEY\<close>, the constructor
  \<^verbatim>\<open>googlemaps.Client\<close> and the runtime conversions.
\<close>

record 'w host =
  api_key :: "string option"
  Client :: "string \<Rightarrow> pyexn + 'w gmaps_client"
  runtime :: pyrt

text \<open>How a call of \<open>process_addresses\<close> ends.\<close>

datatype outcome = Returned | SysExit int | Uncaught pyexn

definition get_google_maps_client :: "'w host \<Rightarrow> outcome + 'w gmaps_client" where
  "get_google_maps_client h =
     (case api_key h of
        None \<Rightarrow> Inl (SysExit 1)
      | Some k \<Rightarrow>
          if k = [] then Inl (SysExit 1)
          else (case Client h k of Inl e \<Rightarrow> Inl (Uncaught e) | Inr gmaps \<Rightarrow> Inr gmaps))"

text \<open>The lines of the input file, stripped; empty lines and comments are skipped.\<close>

definition read_raw_addresses :: "string list \<Rightarrow> string list" where
  "read_raw_addresses lines =
     filter (\<lambda>line. line \<noteq> [] \<and> \<not> py_startswith line ''#'') (map py_strip lines)"

text \<open>
  The variables \<open>(addresses, next_id, successful, failed)\<close> when the loop over the
  raw addresses starts.
\<close>

type_synonym loop_state = "address_row list \<times> int \<times> nat \<times> string list"

definition start_state :: "pyrt \<Rightarrow> disk \<Rightarrow> bool \<Rightarrow> loop_state" where
  "start_state rt d append_mode =
     (case (if \<not> append_mode then ([], 1) else read_existing_addresses rt (csv_file d)) of
        (addresses, next_id) \<Rightarrow> (addresses, next_id + 1, 0, []))"

definition with_id :: "geo_result \<Rightarrow> int \<Rightarrow> address_row" where
  "with_id result i =
     \<lparr>name = name result, address = address result, lat = lat result, lng = lng result,
      visible = visible result, rec_id = i\<rparr>"

fun process_loop :: "'w gmaps_client \<Rightarrow> string list \<Rightarrow> loop_state \<Rightarrow> 'w \<Rightarrow> loop_state \<times> 'w" where
  "process_loop gmaps [] st w = (st, w)"
| "process_loop gmaps (raw_address # rest) (addresses, next_id, successful, failed) w =
     (case geocode_address gmaps raw_address w of
        (Some result, w') \<Rightarrow>
          process_loop gmaps rest
            (addresses @ [with_id result next_id], next_id + 1, successful + 1, failed) w'
      | (None, w') \<Rightarrow>
          process_loop gmaps rest (addresses, next_id, successful, failed @ [raw_address]) w')"

text \<open>The failure list is written when there are failures, and removed otherwise.\<close>

definition write_failed :: "string list \<Rightarrow> disk \<Rightarrow> disk" where
  "write_failed failed d =
     (if failed \<noteq> [] then d\<lparr>failed_file := Some (concat (map (\<lambda>addr. addr @ [CHR 0x0A]) failed))\<rparr>
      else if failed_file d \<noteq> None then d\<lparr>failed_file := None\<rparr>
      else d)"

definition process_addresses ::
  "'w host \<Rightarrow> disk \<Rightarrow> 'w \<Rightarrow> string \<Rightarrow> bool \<Rightarrow> outcome \<times> disk \<times> 'w" where
  "process_addresses h d w input_file append_mode =
     (case text_files d input_file of
        None \<Rightarrow> (SysExit 1, d, w)
      | Some lines \<Rightarrow>
          (let raw_addresses = read_raw_addresses lines in
           if raw_addresses = [] then (Returned, d, w)
           else
             (case get_google_maps_client h of
                Inl out \<Rightarrow> (out, d, w)
              | Inr gmaps \<Rightarrow>
                  (case process_loop gmaps raw_addresses
                          (start_state (runtime h) d append_mode) w of
                     ((addresses, next_id, successful, failed), w') \<Rightarrow>
                       (Returned,
                        write_failed failed
                          (if addresses \<noteq> [] then write_addresses_csv (runtime h) addresses d
                           else d),
                        w')))))"

subsection \<open>Notions used to state the properties\<close>

text \<open>
  The results of resolving the lines of a run one after the other, the service state
  threaded through as the loop does. It is not a function of the source.
\<close>

fun resolve_all :: "'w gmaps_client \<Rightarrow> string list \<Rightarrow> 'w \<Rightarrow> geo_result option list \<times> 'w" where
  "resolve_all gmaps [] w = ([], w)"
| "resolve_all gmaps (raw_address # rest) w =
     (case geocode_address gmaps raw_address w of
        (r, w') \<Rightarrow> (case resolve_all gmaps rest w' of (rs, w'') \<Rightarrow> (r # rs, w'')))"

text \<open>The results that are not \<^verbatim>\<open>None\<close>, in order.\<close>

fun resolved :: "'a option list \<Rightarrow> 'a list" where
  "resolved [] = []"
| "resolved (None # rs) = resolved rs"
| "resolved (Some r # rs) = r # resolved rs"

text \<open>The lines whose result is \<^verbatim>\<open>None\<close>, in order.\<close>

fun failed_lines :: "string list \<Rightarrow> 'a option list \<Rightarrow> string list" where
  "failed_lines (l # ls) (None # rs) = l # failed_lines ls rs"
| "failed_lines (l # ls) (Some r # rs) = failed_lines ls rs"
| "failed_lines [] rs = []"
| "failed_lines ls [] = []"

text \<open>The ids \<open>start, start + 1, \<dots>\<close>, \<open>k\<close> of them.\<close>

definition ids_from :: "int \<Rightarrow> nat \<Rightarrow> int list" where
  "ids_from start k = map (\<lambda>i. start + int i) [0..<k]"

subsection \<open>Sample inputs\<close>

text \<open>
  A runtime that converts the few numerals of the samples, a service that knows one venue
  in the area, one venue elsewhere and two street addresses, and counts its calls.
\<close>

definition sample_rt :: pyrt where
  "sample_rt =
     \<lparr>int_of_str = (\<lambda>s. if s = ''5'' then Some 5 else if s = ''3'' then Some 3 else None),
      float_of_str = (\<lambda>s. if s = ''38.9'' then Some (Fin 38.9)
                          else if s = ''-77.0'' then Some (Fin (-77.0)) else None),
      cell_text = (\<lambda>v. case v of
                          PStr s \<Rightarrow> s
                        | PBool b \<Rightarrow> (if b then ''True'' else ''False'')
                        | PInt i \<Rightarrow> (if i = 2 then ''2'' else if i = 5 then ''5''
                                     else if i = 6 then ''6'' else ''7'')
                        | PFloat x \<Rightarrow> (if x = Fin 38.9 then ''38.9'' else ''-77.0'')
                        | _ \<Rightarrow> [])\<rparr>"

definition geometry_at :: "real \<Rightarrow> real \<Rightarrow> pyval" where
  "geometry_at x y =
     PDict [(''location'', PDict [(''lat'', PFloat (Fin x)), (''lng'', PFloat (Fin y))])]"

definition sample_gmaps :: "nat gmaps_client" where
  "sample_gmaps =
     \<lparr>places = (\<lambda>q w.
        (if q = ''Smithsonian, Washington DC''
         then Inr (PDict [(''status'', PStr ''OK''),
                          (''results'', PList [PDict [(''place_id'', PStr ''p1'')]])])
         else if q = ''Eiffel Tower, Washington DC''
         then Inr (PDict [(''status'', PStr ''OK''),
                          (''results'', PList [PDict [(''place_id'', PStr ''p2'')]])])
         else Inr (PDict [(''status'', PStr ''ZERO_RESULTS''), (''results'', PList [])]),
         Suc w)),
      place = (\<lambda>i w.
        (if i = PStr ''p1''
         then Inr (PDict [(''status'', PStr ''OK''),
                          (''result'', PDict [(''name'', PStr ''Smithsonian Castle''),
                                              (''formatted_address'', PStr ''1000 Jefferson Dr SW''),
                                              (''geometry'', geometry_at 38.9 (-77.0))])])
         else if i = PStr ''p2''
         then Inr (PDict [(''status'', PStr ''OK''),
                          (''result'', PDict [(''name'', PStr ''Tour Eiffel''),
                                              (''formatted_address'', PStr ''Paris''),
                                              (''geometry'', geometry_at 48.9 2.3)])])
         else Inl ApiError,
         Suc w)),
      geocode = (\<lambda>q w.
        (if q = ''123 Fake St, Washington DC''
         then Inr (PList [PDict [(''formatted_address'', PStr ''123 Fake St, Washington, DC 20001''),
                                 (''geometry'', geometry_at 38.9 (-77.0))]])
         else if q = ''9 Far Rd, Washington DC''
         then Inr (PList [PDict [(''formatted_address'', PStr ''9 Far Rd, Harrisburg, PA''),
                                 (''geometry'', geometry_at 40.0 (-77.0))]])
         else Inr (PList []),
         Suc w))\<rparr>"

definition sample_host :: "nat host" where
  "sample_host = \<lparr>api_key = Some ''AIza-sample'', Client = (\<lambda>k. Inr sample_gmaps),
                   runtime = sample_rt\<rparr>"

text \<open>The same host without the credential.\<close>

definition keyless_host :: "nat host" where
  "keyless_host = \<lparr>api_key = None, Client = (\<lambda>k. Inr sample_gmaps), runtime = sample_rt\<rparr>"

definition old_row :: csv_row where
  "old_row = [(''id'', Some ''5''), (''name'', Some ''Old Bar''), (''address'', Some ''1 Old St''),
              (''lat'', Some ''38.9''), (''lng'', Some ''-77.0''), (''visible'', Some ''True'')]"

text \<open>
  A directory with a dataset of one record (id 5) and a failure list from an earlier run;
  its input files hold a resolvable address, an unknown one, and comments only.
\<close>

definition sample_disk :: disk where
  "sample_disk =
     \<lparr>text_files = (\<lambda>f. if f = ''addresses_raw.txt'' then Some [''123 Fake St, Washington DC\<newline>'']
                         else if f = ''unknown.txt'' then Some [''Nowhere Special\<newline>'']
                         else if f = ''comments.txt'' then Some [''# nothing yet\<newline>'', ''\<newline>'']
                         else None),
      csv_file = Some [old_row],
      failed_file = Some ''Stale Entry\<newline>''\<rparr>"

section \<open>Properties\<close>

subsection \<open>Auxiliary facts\<close>

lemma ids_from_Suc: "ids_from n (Suc k) = n # ids_from (n + 1) k"
  by (simp add: ids_from_def map_upt_Suc del: upt_Suc)

lemma ids_from_0: "ids_from n 0 = []"
  by (simp add: ids_from_def)

lemma rec_id_numbered:
  "map rec_id (map2 with_id xs (ids_from n (length xs))) = ids_from n (length xs)"
  by (induction xs arbitrary: n) (simp_all add: ids_from_Suc ids_from_0 with_id_def)

lemma ids_from_Nil: "(ids_from n k = []) = (k = 0)"
  by (simp add: ids_from_def)

lemma length_ids_from: "length (ids_from n k) = k"
  by (simp add: ids_from_def)

lemma sorted_ids_from: "sorted_wrt (<) (ids_from n k)"
  by (simp add: ids_from_def sorted_wrt_map sorted_wrt_iff_nth_less)

lemma distinct_ids_from: "distinct (ids_from n k)"
  by (simp add: ids_from_def distinct_map inj_on_def)

lemma process_loop_eq:
  "process_loop gmaps raws (a, n, s, f) w =
     (case resolve_all gmaps raws w of
        (rs, w') \<Rightarrow>
          ((a @ map2 with_id (resolved rs) (ids_from n (length (resolved rs))),
            n + int (length (resolved rs)),
            s + length (resolved rs),
            f @ failed_lines raws rs), w'))"
proof (induction raws arbitrary: a n s f w)
  case Nil
  show ?case by (simp add: ids_from_def)
next
  case (Cons raw rest)
  show ?case
  proof (cases "geocode_address gmaps raw w")
    case (Pair r w1)
    show ?thesis
    proof (cases r)
      case None
      with Pair Cons.IH show ?thesis by (simp split: prod.splits)
    next
      case (Some x)
      with Pair Cons.IH show ?thesis by (simp add: ids_from_Suc split: prod.splits)
    qed
  qed
qed

lemma length_resolve_all: "length (fst (resolve_all gmaps raws w)) = length raws"
proof (induction raws arbitrary: w)
  case Nil
  show ?case by simp
next
  case (Cons raw rest)
  obtain r w1 where g: "geocode_address gmaps raw w = (r, w1)"
    by (cases "geocode_address gmaps raw w")
  obtain rs w2 where t: "resolve_all gmaps rest w1 = (rs, w2)"
    by (cases "resolve_all gmaps rest w1")
  from Cons.IH [of w1] t have "length rs = length rest" by simp
  with g t show ?case by simp
qed

lemma resolved_failed_count:
  "length rs = length raws \<Longrightarrow> length (resolved rs) + length (failed_lines raws rs) = length raws"
proof (induction raws rs rule: failed_lines.induct)
qed auto

lemma subseq_failed_lines: "subseq (failed_lines raws rs) raws"
  by (induction raws rs rule: failed_lines.induct) auto

lemma read_rows_max:
  "read_rows rt rows (a, m) = (a', m') \<Longrightarrow> m = Max (set (m0 # map rec_id a))
     \<Longrightarrow> m' = Max (set (m0 # map rec_id a'))"
proof (induction rows arbitrary: a m)
  case Nil
  then show ?case by auto
next
  case (Cons row rows)
  show ?case
  proof (cases "parse_row rt row")
    case (Inl e)
    with Cons.prems show ?thesis by auto
  next
    case (Inr x)
    with Cons.prems have step: "read_rows rt rows (a @ [x], max m (rec_id x)) = (a', m')"
      by simp
    have "set (m0 # map rec_id (a @ [x])) = insert (rec_id x) (set (m0 # map rec_id a))"
      by auto
    moreover have "Max (insert (rec_id x) (set (m0 # map rec_id a)))
                     = max (rec_id x) (Max (set (m0 # map rec_id a)))"
      by (rule Max_insert) auto
    ultimately have "max m (rec_id x) = Max (set (m0 # map rec_id (a @ [x])))"
      using Cons.prems(2) by (simp only: max.commute)
    from Cons.IH [OF step this] show ?thesis .
  qed
qed

lemma read_existing_max:
  "read_existing_addresses rt csv = (existing, max_id) \<Longrightarrow> max_id = Max (set (0 # map rec_id existing))"
  by (cases csv) (auto simp: read_existing_addresses_def dest: read_rows_max [where ?m0.0 = 0])

lemma py_split_nonempty: "py_split sep s \<noteq> []"
  by (induction s) (auto split: list.splits)

lemma first_of_split: "py_split sep s = x # xs \<Longrightarrow> x = takeWhile (\<lambda>c. c \<noteq> sep) s"
  by (induction s arbitrary: x xs) (auto simp: py_split_nonempty split: if_splits list.splits)

lemma failed_file_write_failed:
  "failed_file (write_failed failed d)
     = (if failed = [] then None else Some (concat (map (\<lambda>addr. addr @ [CHR 0x0A]) failed)))"
  by (simp add: write_failed_def)

lemma csv_file_write_failed: "csv_file (write_failed failed d) = csv_file d"
  by (simp add: write_failed_def)

lemma start_state_shape: "\<exists>a n. start_state rt d append_mode = (a, n, 0, [])"
  by (simp add: start_state_def split: prod.splits)

lemma start_state_overwrite: "start_state rt d False = ([], 2, 0, [])"
  by (simp add: start_state_def)

subsection \<open>Bounds validation\<close>

text \<open>
  C4. On two floats, \<open>validate_dc_coordinates\<close> returns true exactly when
  \<open>38.5 \<le> lat \<le> 39.5\<close> and \<open>-77.5 \<le> lng \<le> -76.5\<close>, bounds included (a float that
  is not finite is never inside); it returns false for \<open>(40.0, -77.0)\<close> and true for
  \<open>(38.9, -77.0)\<close>.
\<close>

theorem validate_dc_coordinates_iff:
  "validate_dc_coordinates (PFloat (Fin x)) (PFloat (Fin y)) a
     = Inr (38.5 \<le> x \<and> x \<le> 39.5 \<and> -77.5 \<le> y \<and> y \<le> -76.5)
   \<and> validate_dc_coordinates (PFloat NaN) (PFloat v) a = Inr False
   \<and> validate_dc_coordinates (PFloat PosInf) (PFloat v) a = Inr False
   \<and> validate_dc_coordinates (PFloat NegInf) (PFloat v) a = Inr False
   \<and> validate_dc_coordinates (PFloat (Fin 38.9)) (PFloat NaN) a = Inr False
   \<and> validate_dc_coordinates (PFloat (Fin 40.0)) (PFloat (Fin (-77.0))) a = Inr False
   \<and> validate_dc_coordinates (PFloat (Fin 38.9)) (PFloat (Fin (-77.0))) a = Inr True"
  by (simp add: validate_dc_coordinates_def in_dc_box_def and_then_def
        DC_LAT_MIN_def DC_LAT_MAX_def DC_LNG_MIN_def DC_LNG_MAX_def)

text \<open>
  C5. The two resolvers treat coordinates outside the box differently. When the venue
  search has found a place and the bounds check on its coordinates returns false,
  \<open>find_place_by_name\<close> returns \<^verbatim>\<open>None\<close>; when the geocoder has found an address and
  the bounds check on its coordinates returns false, \<open>geocode_address_fallback\<close> still
  returns the entry, with these coordinates.
\<close>

theorem bounds_asymmetry:
  "(find_place_details gmaps raw1 w1 = (Inr (Some (lt1, lg1, nm1, fa1)), w1')
      \<and> validate_dc_coordinates lt1 lg1 raw1 = Inr False
    \<longrightarrow> find_place_by_name gmaps raw1 w1 = (None, w1'))
   \<and> (geocode_lookup gmaps raw2 w2 = (Inr (Some (lt2, lg2, fa2)), w2')
      \<and> validate_dc_coordinates lt2 lg2 raw2 = Inr False
    \<longrightarrow> geocode_address_fallback gmaps raw2 w2
          = (Some \<lparr>name = PStr (py_strip (takeWhile (\<lambda>c. c \<noteq> CHR '','') raw2)),
                   address = fa2, lat = lt2, lng = lg2, visible = True\<rparr>, w2'))"
proof -
  have "name_from_input raw2 = Inr (py_strip (takeWhile (\<lambda>c. c \<noteq> CHR '','') raw2))"
    by (auto simp: name_from_input_def py_split_nonempty split: list.splits dest: first_of_split)
  then show ?thesis
    by (simp add: find_place_by_name_def geocode_address_fallback_def)
qed

theorem bounds_asymmetry_witness:
  "find_place_details sample_gmaps ''Eiffel Tower'' 0
     = (Inr (Some (PFloat (Fin 48.9), PFloat (Fin 2.3), PStr ''Tour Eiffel'', PStr ''Paris'')), 2)
   \<and> validate_dc_coordinates (PFloat (Fin 48.9)) (PFloat (Fin 2.3)) ''Eiffel Tower'' = Inr False
   \<and> find_place_by_name sample_gmaps ''Eiffel Tower'' 0 = (None, 2)
   \<and> geocode_lookup sample_gmaps ''9 Far Rd'' 0
     = (Inr (Some (PFloat (Fin 40.0), PFloat (Fin (-77.0)), PStr ''9 Far Rd, Harrisburg, PA'')), 1)
   \<and> validate_dc_coordinates (PFloat (Fin 40.0)) (PFloat (Fin (-77.0))) ''9 Far Rd'' = Inr False
   \<and> geocode_address_fallback sample_gmaps ''9 Far Rd'' 0
     = (Some \<lparr>name = PStr ''9 Far Rd'', address = PStr ''9 Far Rd, Harrisburg, PA'',
              lat = PFloat (Fin 40.0), lng = PFloat (Fin (-77.0)), visible = True\<rparr>, 1)"
proof -
  have p: "find_place_details sample_gmaps ''Eiffel Tower'' 0
     = (Inr (Some (PFloat (Fin 48.9), PFloat (Fin 2.3), PStr ''Tour Eiffel'', PStr ''Paris'')), 2)"
    by code_simp
  have pv: "validate_dc_coordinates (PFloat (Fin 48.9)) (PFloat (Fin 2.3)) ''Eiffel Tower'' = Inr False"
    by code_simp
  have g: "geocode_lookup sample_gmaps ''9 Far Rd'' 0
     = (Inr (Some (PFloat (Fin 40.0), PFloat (Fin (-77.0)), PStr ''9 Far Rd, Harrisburg, PA'')), 1)"
    by code_simp
  have gv: "validate_dc_coordinates (PFloat (Fin 40.0)) (PFloat (Fin (-77.0))) ''9 Far Rd'' = Inr False"
    by code_simp
  have n: "py_strip (takeWhile (\<lambda>c. c \<noteq> CHR '','') ''9 Far Rd'') = ''9 Far Rd''"
    by code_simp
  from bounds_asymmetry [of sample_gmaps "''Eiffel Tower''" 0 "PFloat (Fin 48.9)" "PFloat (Fin 2.3)"
      "PStr ''Tour Eiffel''" "PStr ''Paris''" 2 "''9 Far Rd''" 0 "PFloat (Fin 40.0)"
      "PFloat (Fin (-77.0))" "PStr ''9 Far Rd, Harrisburg, PA''" 1]
  show ?thesis
    using p pv g gv by (simp only: n simp_thms)
qed

subsection \<open>Identifiers\<close>

text \<open>
  C1 (as the code has it). In append mode, with the entries \<open>existing\<close> read from the
  dataset file and \<open>max_id\<close> the largest of \<open>0\<close> and their ids, a run that resolves
  \<open>k\<close> lines ends with \<open>length existing + k\<close> entries: the existing ones first,
  unchanged, then the new ones with the ids \<open>max_id + 1, \<dots>, max_id + k\<close>.
\<close>

theorem append_ids:
  assumes "read_existing_addresses rt (csv_file d) = (existing, max_id)"
  shows "case process_loop gmaps raws (start_state rt d True) w of
           ((addresses, next_id, successful, failed), w') \<Rightarrow>
             length addresses = length existing + successful
             \<and> take (length existing) addresses = existing
             \<and> map rec_id (drop (length existing) addresses) = ids_from (max_id + 1) successful
             \<and> max_id = Max (set (0 # map rec_id existing))
             \<and> successful = length (resolved (fst (resolve_all gmaps raws w)))"
proof -
  obtain rs w1 where r: "resolve_all gmaps raws w = (rs, w1)"
    by (cases "resolve_all gmaps raws w")
  have st: "start_state rt d True = (existing, max_id + 1, 0, [])"
    using assms by (simp add: start_state_def)
  show ?thesis
    using r read_existing_max [OF assms]
    by (simp add: st process_loop_eq length_ids_from rec_id_numbered del: map_map)
qed

theorem append_ids_witness:
  "read_existing_addresses sample_rt (csv_file sample_disk)
     = ([\<lparr>name = PStr ''Old Bar'', address = PStr ''1 Old St'', lat = PFloat (Fin 38.9),
          lng = PFloat (Fin (-77.0)), visible = True, rec_id = 5\<rparr>], 5)
   \<and> (case process_loop sample_gmaps
          [''Smithsonian'', ''Nowhere Special'', ''123 Fake St, Washington DC'']
          (start_state sample_rt sample_disk True) 0 of
        ((addresses, next_id, successful, failed), w') \<Rightarrow>
          length addresses = 1 + successful
          \<and> map rec_id (drop 1 addresses) = ids_from (5 + 1) successful
          \<and> successful = 2)"
proof -
  have h: "read_existing_addresses sample_rt (csv_file sample_disk)
     = ([\<lparr>name = PStr ''Old Bar'', address = PStr ''1 Old St'', lat = PFloat (Fin 38.9),
          lng = PFloat (Fin (-77.0)), visible = True, rec_id = 5\<rparr>], 5)"
    by code_simp
  have k: "length (resolved (fst (resolve_all sample_gmaps
          [''Smithsonian'', ''Nowhere Special'', ''123 Fake St, Washington DC''] 0))) = 2"
    by code_simp
  show ?thesis
    using h k append_ids [OF h, of sample_gmaps
         "[''Smithsonian'', ''Nowhere Special'', ''123 Fake St, Washington DC'']" 0]
    by (simp split: prod.splits)
qed

text \<open>
  C1 as stated fails: with one existing entry of id 5, the entry a run appends gets the
  id 6, not \<open>5 + 2\<close>.
\<close>

theorem append_starts_at_max_plus_one:
  "map rec_id (fst (read_existing_addresses sample_rt (csv_file sample_disk))) = [5]
   \<and> map rec_id (drop 1 (fst (fst (process_loop sample_gmaps [''123 Fake St, Washington DC'']
          (start_state sample_rt sample_disk True) 0)))) = [6]
   \<and> map rec_id (drop 1 (fst (fst (process_loop sample_gmaps [''123 Fake St, Washington DC'']
          (start_state sample_rt sample_disk True) 0)))) \<noteq> ids_from (Max (set [5]) + 2) 1"
  by code_simp

text \<open>
  C2. In overwrite mode the loop starts with no entries and \<open>next_id = 2\<close>, so the first
  id issued is 2 where the invariant asks for 1.
\<close>

theorem overwrite_first_id:
  "start_state rt d False = ([], 2, 0, [])
   \<and> map rec_id (fst (fst (process_loop sample_gmaps [''123 Fake St, Washington DC'']
          (start_state sample_rt sample_disk False) 0))) = [2]"
proof -
  have "start_state rt d False = ([], 2, 0, [])"
    by (simp add: start_state_def)
  moreover have "map rec_id (fst (fst (process_loop sample_gmaps [''123 Fake St, Washington DC'']
          (start_state sample_rt sample_disk False) 0))) = [2]"
    by code_simp
  ultimately show ?thesis by simp
qed

text \<open>
  C7. In one run of the loop, the entries added are the results of the lines that were
  resolved, all of them and in input order, each given the next id: their ids are
  \<open>start_id, start_id + 1, \<dots>\<close>, as many as there are resolved lines, so they are strictly
  increasing and distinct. A failed line uses up no id: the resolved and the failed lines
  are all the lines, and \<open>next_id\<close> ends at \<open>start_id\<close> plus the number of resolved lines.
\<close>

theorem ids_sequential:
  "case process_loop gmaps raws (addresses, start_id, successful, []) w of
     ((addresses', next_id', successful', failed'), w') \<Rightarrow>
       (let results = resolved (fst (resolve_all gmaps raws w));
            new = drop (length addresses) addresses'
        in take (length addresses) addresses' = addresses
           \<and> length new = length results
           \<and> new = map2 with_id results (ids_from start_id (length results))
           \<and> map rec_id new = ids_from start_id (length results)
           \<and> sorted_wrt (<) (map rec_id new)
           \<and> distinct (map rec_id new)
           \<and> next_id' = start_id + int (length results)
           \<and> length results + length (failed_lines raws (fst (resolve_all gmaps raws w)))
               = length raws
           \<and> failed' = failed_lines raws (fst (resolve_all gmaps raws w)))"
proof -
  obtain rs w1 where r: "resolve_all gmaps raws w = (rs, w1)"
    by (cases "resolve_all gmaps raws w")
  have len: "length rs = length raws"
    using length_resolve_all [of gmaps raws w] r by simp
  show ?thesis
    using r resolved_failed_count [OF len]
    by (simp add: process_loop_eq rec_id_numbered sorted_ids_from distinct_ids_from
          length_ids_from Let_def del: map_map)
qed

text \<open>
  C8. In one run of the loop, the number of entries added and the number of failed lines
  add up to the number of lines: a line whose resolution gave a result adds one entry, and
  a line whose resolution gave none is put on the failure list.
\<close>

theorem every_line_accounted:
  "case process_loop gmaps raws (addresses, next_id, 0, []) w of
     ((addresses', next_id', successful', failed'), w') \<Rightarrow>
       successful' + length failed' = length raws
       \<and> length addresses' = length addresses + successful'
       \<and> successful' = length (resolved (fst (resolve_all gmaps raws w)))
       \<and> failed' = failed_lines raws (fst (resolve_all gmaps raws w))"
proof -
  obtain rs w1 where r: "resolve_all gmaps raws w = (rs, w1)"
    by (cases "resolve_all gmaps raws w")
  have len: "length rs = length raws"
    using length_resolve_all [of gmaps raws w] r by simp
  show ?thesis
    using r resolved_failed_count [OF len] by (simp add: process_loop_eq length_ids_from)
qed

subsection \<open>The fallback resolver\<close>

text \<open>
  C6. Whenever the geocoding fallback returns an entry, its name is the raw input up to
  its first comma, stripped of surrounding whitespace, whatever the service answered.
\<close>

theorem fallback_name:
  assumes "geocode_address_fallback gmaps raw w = (Some r, w')"
  shows "name r = PStr (py_strip (takeWhile (\<lambda>c. c \<noteq> CHR '','') raw))"
  using assms
  by (auto simp: geocode_address_fallback_def name_from_input_def
           split: prod.splits sum.splits option.splits list.splits dest: first_of_split)

theorem fallback_name_witness:
  "geocode_address_fallback sample_gmaps ''123 Fake St, Washington DC'' 0
     = (Some \<lparr>name = PStr ''123 Fake St'', address = PStr ''123 Fake St, Washington, DC 20001'',
              lat = PFloat (Fin 38.9), lng = PFloat (Fin (-77.0)), visible = True\<rparr>, 1)
   \<and> py_strip (takeWhile (\<lambda>c. c \<noteq> CHR '','') ''123 Fake St, Washington DC'') = ''123 Fake St''"
proof -
  have h: "geocode_address_fallback sample_gmaps ''123 Fake St, Washington DC'' 0
     = (Some \<lparr>name = PStr ''123 Fake St'', address = PStr ''123 Fake St, Washington, DC 20001'',
              lat = PFloat (Fin 38.9), lng = PFloat (Fin (-77.0)), visible = True\<rparr>, 1)"
    by code_simp
  from fallback_name [OF h] h show ?thesis by simp
qed

subsection \<open>Files after a run\<close>

text \<open>
  C3 (as the code has it). In overwrite mode, a run that gets as far as the loop and
  resolves at least one line ends with a dataset file that does not depend on the one that
  was there: the file holds one row for each resolved result, in input order, each result
  with an id of its own, and the same rows whatever disk \<open>other\<close> the run would have
  started from. When the run resolves no line, the dataset file is left as it was.
\<close>

theorem overwrite_dataset:
  assumes "text_files d input_file = Some lines"
    and "read_raw_addresses lines \<noteq> []"
    and "get_google_maps_client h = Inr gmaps"
  shows "case process_addresses h d w input_file False of
           (out, d', w') \<Rightarrow>
             (let raws = read_raw_addresses lines;
                  results = resolved (fst (resolve_all gmaps raws w));
                  new = fst (fst (process_loop gmaps raws (start_state (runtime h) other False) w))
              in out = Returned
                 \<and> csv_file d'
                     = (if results = [] then csv_file d
                        else Some (map (csv_row_of (runtime h)) new))
                 \<and> length new = length results
                 \<and> new = map2 with_id results (map rec_id new)
                 \<and> distinct (map rec_id new))"
proof -
  obtain rs w1 where r: "resolve_all gmaps (read_raw_addresses lines) w = (rs, w1)"
    by (cases "resolve_all gmaps (read_raw_addresses lines) w")
  show ?thesis
    using assms r
    by (simp add: process_addresses_def start_state_overwrite process_loop_eq
          csv_file_write_failed write_addresses_csv_def rec_id_numbered length_ids_from
          ids_from_Nil
          distinct_ids_from Let_def del: map_map)
qed

theorem overwrite_dataset_witness:
  "text_files sample_disk ''addresses_raw.txt'' = Some [''123 Fake St, Washington DC\<newline>'']
   \<and> read_raw_addresses [''123 Fake St, Washington DC\<newline>''] \<noteq> []
   \<and> get_google_maps_client sample_host = Inr sample_gmaps
   \<and> resolved (fst (resolve_all sample_gmaps
        (read_raw_addresses [''123 Fake St, Washington DC\<newline>'']) 0)) \<noteq> []
   \<and> csv_file (fst (snd (process_addresses sample_host sample_disk 0 ''addresses_raw.txt'' False)))
       = Some [[(''id'', Some ''2''), (''name'', Some ''123 Fake St''),
                (''address'', Some ''123 Fake St, Washington, DC 20001''),
                (''lat'', Some ''38.9''), (''lng'', Some ''-77.0''), (''visible'', Some ''True'')]]"
proof -
  have f: "text_files sample_disk ''addresses_raw.txt'' = Some [''123 Fake St, Washington DC\<newline>'']"
    by (simp add: sample_disk_def)
  have r: "read_raw_addresses [''123 Fake St, Washington DC\<newline>''] \<noteq> []"
    by code_simp
  have c: "get_google_maps_client sample_host = Inr sample_gmaps"
    by (simp add: get_google_maps_client_def sample_host_def)
  have n: "resolved (fst (resolve_all sample_gmaps
        (read_raw_addresses [''123 Fake St, Washington DC\<newline>'']) 0)) \<noteq> []"
    by code_simp
  have e: "map (csv_row_of (runtime sample_host))
            (fst (fst (process_loop sample_gmaps
               (read_raw_addresses [''123 Fake St, Washington DC\<newline>''])
               (start_state (runtime sample_host) sample_disk False) 0)))
        = [[(''id'', Some ''2''), (''name'', Some ''123 Fake St''),
                (''address'', Some ''123 Fake St, Washington, DC 20001''),
                (''lat'', Some ''38.9''), (''lng'', Some ''-77.0''), (''visible'', Some ''True'')]]"
    by code_simp
  from overwrite_dataset [OF f r c, where w = 0 and other = sample_disk]
  show ?thesis
    using f r c n e by (auto simp: Let_def split: prod.splits if_splits)
qed

text \<open>
  C3 as stated fails: an overwrite run whose only line cannot be resolved leaves the old
  dataset in place, so the dataset after the run is the old one where there was one and
  none where there was none.
\<close>

theorem overwrite_keeps_old_dataset:
  "fst (process_addresses sample_host sample_disk 0 ''unknown.txt'' False) = Returned
   \<and> resolved (fst (resolve_all sample_gmaps [''Nowhere Special''] 0)) = []
   \<and> csv_file (fst (snd (process_addresses sample_host sample_disk 0 ''unknown.txt'' False)))
       = Some [old_row]
   \<and> csv_file (fst (snd (process_addresses sample_host (sample_disk\<lparr>csv_file := None\<rparr>) 0
                           ''unknown.txt'' False)))
       = None"
  by code_simp

text \<open>
  C9 (as the code has it). After a run that gets as far as the loop (the input has a line
  to process and the client was created), the failure list reflects that run only: with
  failed lines, the file holds exactly these, in input order, one per line of text; with
  none, there is no failure file, whether or not there was one before.
\<close>

theorem failure_file_after_run:
  assumes "text_files d input_file = Some lines"
    and "read_raw_addresses lines \<noteq> []"
    and "get_google_maps_client h = Inr gmaps"
  shows "case process_addresses h d w input_file append_mode of
           (out, d', w') \<Rightarrow>
             (let raws = read_raw_addresses lines;
                  failed = failed_lines raws (fst (resolve_all gmaps raws w))
              in out = Returned
                 \<and> failed_file d'
                     = (if failed = [] then None
                        else Some (concat (map (\<lambda>addr. addr @ ''\<newline>'') failed)))
                 \<and> subseq failed raws)"
proof -
  obtain rs w1 where r: "resolve_all gmaps (read_raw_addresses lines) w = (rs, w1)"
    by (cases "resolve_all gmaps (read_raw_addresses lines) w")
  obtain a n where st: "start_state (runtime h) d append_mode = (a, n, 0, [])"
    using start_state_shape by blast
  show ?thesis
    using assms r
    by (simp add: process_addresses_def st process_loop_eq failed_file_write_failed
          subseq_failed_lines Let_def)
qed

theorem failure_file_after_run_witness:
  "text_files sample_disk ''addresses_raw.txt'' = Some [''123 Fake St, Washington DC\<newline>'']
   \<and> read_raw_addresses [''123 Fake St, Washington DC\<newline>''] \<noteq> []
   \<and> get_google_maps_client sample_host = Inr sample_gmaps
   \<and> failed_file sample_disk = Some ''Stale Entry\<newline>''
   \<and> failed_file (fst (snd (process_addresses sample_host sample_disk 0 ''addresses_raw.txt'' True)))
       = None"
proof -
  have f: "text_files sample_disk ''addresses_raw.txt'' = Some [''123 Fake St, Washington DC\<newline>'']"
    by (simp add: sample_disk_def)
  have r: "read_raw_addresses [''123 Fake St, Washington DC\<newline>''] \<noteq> []"
    by code_simp
  have c: "get_google_maps_client sample_host = Inr sample_gmaps"
    by (simp add: get_google_maps_client_def sample_host_def)
  have s: "failed_file sample_disk = Some ''Stale Entry\<newline>''"
    by (simp add: sample_disk_def)
  have e: "failed_lines (read_raw_addresses [''123 Fake St, Washington DC\<newline>''])
             (fst (resolve_all sample_gmaps
                (read_raw_addresses [''123 Fake St, Washington DC\<newline>'']) 0)) = []"
    by code_simp
  from failure_file_after_run [OF f r c, of 0 True]
  show ?thesis
    using f r c s by (simp add: e Let_def split: prod.splits)
qed

text \<open>
  C9 as stated fails: a run on an input of comments only returns normally with no failed
  line, and the failure list of an earlier run is still there.
\<close>

theorem stale_failure_file_kept:
  "fst (process_addresses sample_host sample_disk 0 ''comments.txt'' False) = Returned
   \<and> failed_file sample_disk = Some ''Stale Entry\<newline>''
   \<and> failed_file (fst (snd (process_addresses sample_host sample_disk 0 ''comments.txt'' False)))
       = Some ''Stale Entry\<newline>''"
  by code_simp

text \<open>
  C10. When the input file exists and has no line that is neither empty nor a comment,
  \<open>process_addresses\<close> returns normally, with or without a credential, and leaves the
  dataset file, the failure list and the service as they were.
\<close>

theorem empty_input_returns_early:
  assumes "text_files d input_file = Some lines" and "read_raw_addresses lines = []"
  shows "process_addresses h d w input_file append_mode = (Returned, d, w)"
  using assms by (simp add: process_addresses_def)

theorem empty_input_returns_early_witness:
  "text_files sample_disk ''comments.txt'' = Some [''# nothing yet\<newline>'', ''\<newline>'']
   \<and> read_raw_addresses [''# nothing yet\<newline>'', ''\<newline>''] = []
   \<and> api_key keyless_host = None
   \<and> process_addresses keyless_host sample_disk 0 ''comments.txt'' True = (Returned, sample_disk, 0)"
proof -
  have f: "text_files sample_disk ''comments.txt'' = Some [''# nothing yet\<newline>'', ''\<newline>'']"
    by (simp add: sample_disk_def)
  have r: "read_raw_addresses [''# nothing yet\<newline>'', ''\<newline>''] = []"
    by code_simp
  have k: "api_key keyless_host = None"
    by (simp add: keyless_host_def)
  from f r k empty_input_returns_early [OF f r, of keyless_host 0 True]
  show ?thesis by simp
qed

end
